theory Spec2Isabelle
  imports Complex_Main
begin

section \<open>Time and the draw schedule\<close>

text \<open>
  The bot reads one UTC clock, \<^verbatim>\<open>datetime.now(timezone.utc)\<close>. A datetime is
  modelled as the number of microseconds since 0001-01-01T00:00:00 UTC, the first
  instant of Python's proleptic Gregorian calendar. That day is a Monday, so the
  day number modulo 7 is Python's \<^verbatim>\<open>weekday()\<close> (Monday 0, Sunday 6). UTC
  datetimes have neither daylight saving nor leap seconds, so \<^verbatim>\<open>timedelta\<close>
  arithmetic is integer addition. Python stops at year 9999; the model does not
  bound the clock. \<^verbatim>\<open>isoformat()\<close> is injective on UTC datetimes, so the
  \<^verbatim>\<open>draw_date\<close> column is modelled by the datetime itself.
\<close>

type_synonym datetime = int

definition MINUTE_US :: int where
  "MINUTE_US = 60000000"

definition HOUR_US :: int where
  "HOUR_US = 3600000000"

definition DAY_US :: int where
  "DAY_US = 86400000000"

text \<open>\<^verbatim>\<open>dt.replace(minute=0, second=0, microsecond=0)\<close>\<close>

definition replace_top_of_hour :: "datetime \<Rightarrow> datetime" where
  "replace_top_of_hour dt = dt - dt mod HOUR_US"

text \<open>\<^verbatim>\<open>dt.replace(hour=20, minute=0, second=0, microsecond=0)\<close>\<close>

definition replace_2000 :: "datetime \<Rightarrow> datetime" where
  "replace_2000 dt = dt - dt mod DAY_US + 20 * HOUR_US"

text \<open>\<^verbatim>\<open>dt.weekday()\<close>\<close>

definition weekday :: "datetime \<Rightarrow> int" where
  "weekday dt = (dt div DAY_US) mod 7"

text \<open>
  \<^verbatim>\<open>get_next_draw_datetime(lottery_type)\<close>; the clock reading \<open>now\<close> is an
  argument. The cadence is a string in the source, and an unknown one gets \<open>now\<close> back.
\<close>

definition get_next_draw_datetime :: "string \<Rightarrow> datetime \<Rightarrow> datetime" where
  "get_next_draw_datetime lottery_type now =
     (if lottery_type = ''hourly'' then
        replace_top_of_hour (now + HOUR_US)
      else if lottery_type = ''daily'' then
        (let draw_today = replace_2000 now
         in if now < draw_today then draw_today else draw_today + DAY_US)
      else if lottery_type = ''weekly'' then
        (let days_ahead = (6 - weekday now) mod 7;
             draw_datetime = replace_2000 now + days_ahead * DAY_US
         in if now < draw_datetime then draw_datetime else draw_datetime + 7 * DAY_US)
      else now)"

text \<open>The time of day of a datetime, and a datetime from a day number and a time.\<close>

definition time_of_day :: "datetime \<Rightarrow> int" where
  "time_of_day dt = dt mod DAY_US"

definition at_day_time :: "int \<Rightarrow> int \<Rightarrow> int \<Rightarrow> datetime" where
  "at_day_time day hour minute = day * DAY_US + hour * HOUR_US + minute * MINUTE_US"

section \<open>Amounts and the payment gateway\<close>

text \<open>
  Amounts of SOL are Python floats in the source. They are modelled by the rational
  numbers they stand for, with exact arithmetic: rounding is outside the model.
  \<^verbatim>\<open>int(x)\<close> truncates towards zero.
\<close>

type_synonym sol = rat

definition LAMPORTS_PER_SOL :: rat where
  "LAMPORTS_PER_SOL = 1000000000"

definition py_int :: "rat \<Rightarrow> int" where
  "py_int x = (if 0 \<le> x then \<lfloor>x\<rfloor> else \<lceil>x\<rceil>)"

definition TICKET_PRICE_SOL :: sol where
  "TICKET_PRICE_SOL = 1 / 1000"

definition WEEKLY_TICKET_PRICE_SOL :: sol where
  "WEEKLY_TICKET_PRICE_SOL = TICKET_PRICE_SOL"

definition OPERATOR_CUT_PERCENT :: rat where
  "OPERATOR_CUT_PERCENT = 10 / 100"

definition MIN_RENT_EXEMPT_SOL :: sol where
  "MIN_RENT_EXEMPT_SOL = 2 / 1000"

text \<open>
  The module constants that hold keys and addresses. The two addresses are \<open>None\<close>
  when their \<^verbatim>\<open>try\<close> block at import time failed. \<^verbatim>\<open>str(None)\<close> is the
  text \<^verbatim>\<open>None\<close>.
\<close>

record config =
  OPERATOR_PRIVATE_KEY_BASE58 :: string
  OPERATOR_WALLET_ADDRESS :: "string option"
  OPERATOR_PAYOUT_WALLET_ADDRESS :: "string option"

definition str_of :: "string option \<Rightarrow> string" where
  "str_of a = (case a of None \<Rightarrow> ''None'' | Some s \<Rightarrow> s)"

text \<open>
  The Solana client library is outside the repository. Each call into it is a field
  of \<open>gateway\<close>; a call that raises returns \<open>Inl\<close>. The answers of the network may
  depend on what this process has submitted so far, so the calls that reach the
  network take the list of submitted transactions.
\<close>

datatype exn = Exception string

record transaction =
  from_public_key :: string
  to_public_key :: string
  lamports :: int
  recent_blockhash :: string

record gateway =
  Keypair_from_private_key :: "string \<Rightarrow> exn + string"
  rpc_get_balance :: "transaction list \<Rightarrow> string \<Rightarrow> exn + int"
  PublicKey :: "string \<Rightarrow> exn + string"
  transfer_instruction :: "string \<Rightarrow> string \<Rightarrow> int \<Rightarrow> exn option"
  get_latest_blockhash :: "transaction list \<Rightarrow> exn + string"
  send_transaction :: "transaction list \<Rightarrow> transaction \<Rightarrow> exn + string"

text \<open>
  \<^verbatim>\<open>Keypair.from_private_key\<close> gives the sender's address;
  \<^verbatim>\<open>transfer_instruction\<close> stands for building the instruction and the
  \<^verbatim>\<open>Transaction\<close> object (\<open>Some e\<close> when that raises);
  \<^verbatim>\<open>get_latest_blockhash\<close> includes reading
  \<^verbatim>\<open>["result"]["value"]["blockhash"]\<close> out of the answer.
\<close>

text \<open>\<^verbatim>\<open>get_onchain_balance(wallet_address)\<close>: any exception is caught and gives 0.0.\<close>

definition get_onchain_balance :: "gateway \<Rightarrow> transaction list \<Rightarrow> string \<Rightarrow> sol" where
  "get_onchain_balance gw sent wallet_address =
     (case rpc_get_balance gw sent wallet_address of
        Inl e \<Rightarrow> 0
      | Inr lamports_value \<Rightarrow> of_int lamports_value / LAMPORTS_PER_SOL)"

text \<open>
  The body of \<^verbatim>\<open>transfer_sol\<close> inside its \<^verbatim>\<open>try\<close>. The result is the list
  of submitted transactions (one longer when \<^verbatim>\<open>send_transaction\<close> was called)
  and either the exception raised or the value returned: \<open>None\<close> is Python's
  \<^verbatim>\<open>None\<close>.
\<close>

definition transfer_sol_try ::
  "gateway \<Rightarrow> transaction list \<Rightarrow> string \<Rightarrow> string \<Rightarrow> sol \<Rightarrow> bool
     \<Rightarrow> transaction list \<times> (exn + string option)" where
  "transfer_sol_try gw sent from_private_key to_address amount_sol max_transfer_if_insufficient =
     (case Keypair_from_private_key gw from_private_key of
        Inl e \<Rightarrow> (sent, Inl e)
      | Inr sender_address \<Rightarrow>
          (let sender_balance = get_onchain_balance gw sent sender_address;
               max_transferable = sender_balance - MIN_RENT_EXEMPT_SOL
           in if max_transferable \<le> 0 then (sent, Inr None)
              else if \<not> max_transfer_if_insufficient
                      \<and> sender_balance < amount_sol + MIN_RENT_EXEMPT_SOL
              then (sent, Inr None)
              else
                (let amount_sol' =
                       (if max_transfer_if_insufficient \<and> amount_sol > max_transferable
                        then max_transferable else amount_sol)
                 in case PublicKey gw to_address of
                      Inl e \<Rightarrow> (sent, Inl e)
                    | Inr receiver \<Rightarrow>
                        (let lamports = py_int (amount_sol' * LAMPORTS_PER_SOL)
                         in case transfer_instruction gw sender_address receiver lamports of
                              Some e \<Rightarrow> (sent, Inl e)
                            | None \<Rightarrow>
                                (case get_latest_blockhash gw sent of
                                   Inl e \<Rightarrow> (sent, Inl e)
                                 | Inr actual_blockhash \<Rightarrow>
                                     (let transaction =
                                            \<lparr>from_public_key = sender_address,
                                             to_public_key = receiver,
                                             lamports = lamports,
                                             recent_blockhash = actual_blockhash\<rparr>
                                      in case send_transaction gw sent transaction of
                                           Inl e \<Rightarrow> (sent @ [transaction], Inl e)
                                         | Inr tx_result \<Rightarrow>
                                             (sent @ [transaction], Inr (Some tx_result))))))))"

text \<open>\<^verbatim>\<open>transfer_sol\<close>: the body under \<^verbatim>\<open>except Exception: return None\<close>.\<close>

definition transfer_sol ::
  "gateway \<Rightarrow> transaction list \<Rightarrow> string \<Rightarrow> string \<Rightarrow> sol \<Rightarrow> bool
     \<Rightarrow> transaction list \<times> string option" where
  "transfer_sol gw sent from_private_key to_address amount_sol max_transfer_if_insufficient =
     (case transfer_sol_try gw sent from_private_key to_address amount_sol
             max_transfer_if_insufficient of
        (sent', Inl e) \<Rightarrow> (sent', None)
      | (sent', Inr r) \<Rightarrow> (sent', r))"

text \<open>Python truth of a returned transaction result: \<^verbatim>\<open>None\<close> and the empty text are false.\<close>

definition truthy :: "string option \<Rightarrow> bool" where
  "truthy r = (case r of None \<Rightarrow> False | Some s \<Rightarrow> s \<noteq> [])"

section \<open>The ticket ledger\<close>

text \<open>
  The two tables of the lottery database. \<^verbatim>\<open>lottery_tickets\<close> is a list in
  insertion order (rows are never deleted, so the AUTOINCREMENT id is the position
  plus one); \<^verbatim>\<open>lottery_pot\<close> is keyed by the cadence.
\<close>

record ticket =
  ticket_id :: nat
  telegram_id :: int
  lottery_type :: string
  draw_date :: datetime
  ticket_count :: int
  amount_spent :: sol
  won :: sol
  drawn :: int
  purchased_at :: datetime

record pot_row =
  pot :: sol
  ticket_price :: sol
  draw_time :: string

record lottery_db =
  lottery_tickets :: "ticket list"
  lottery_pot :: "string \<rightharpoonup> pot_row"

text \<open>The columns of the \<^verbatim>\<open>users\<close> table that the draw and the purchase read.\<close>

record user =
  wallet_address :: string
  private_key :: string
  username :: string

definition get_user :: "(int \<rightharpoonup> user) \<Rightarrow> int \<Rightarrow> user option" where
  "get_user users tid = users tid"

text \<open>\<^verbatim>\<open>INSERT OR IGNORE INTO lottery_pot ... VALUES (?, ?, ?, 0.0)\<close>\<close>

definition insert_or_ignore_pot ::
  "string \<Rightarrow> sol \<Rightarrow> string \<Rightarrow> (string \<rightharpoonup> pot_row) \<Rightarrow> (string \<rightharpoonup> pot_row)" where
  "insert_or_ignore_pot lt price dtime m =
     (case m lt of
        None \<Rightarrow> m(lt \<mapsto> \<lparr>pot = 0, ticket_price = price, draw_time = dtime\<rparr>)
      | Some r \<Rightarrow> m)"

definition init_lottery_db :: "lottery_db \<Rightarrow> lottery_db" where
  "init_lottery_db d =
     d\<lparr>lottery_pot :=
         insert_or_ignore_pot ''weekly'' WEEKLY_TICKET_PRICE_SOL ''Sunday 20:00''
           (insert_or_ignore_pot ''daily'' TICKET_PRICE_SOL ''20:00''
             (insert_or_ignore_pot ''hourly'' TICKET_PRICE_SOL ''every hour''
               (lottery_pot d)))\<rparr>"

definition empty_db :: lottery_db where
  "empty_db = \<lparr>lottery_tickets = [], lottery_pot = Map.empty\<rparr>"

text \<open>\<^verbatim>\<open>add_ticket\<close>: one INSERT, with no check of its arguments.\<close>

definition add_ticket ::
  "lottery_db \<Rightarrow> int \<Rightarrow> string \<Rightarrow> datetime \<Rightarrow> int \<Rightarrow> sol \<Rightarrow> datetime \<Rightarrow> lottery_db" where
  "add_ticket d tid lt dd cnt amount now =
     d\<lparr>lottery_tickets := lottery_tickets d @
         [\<lparr>ticket_id = Suc (length (lottery_tickets d)), telegram_id = tid,
           lottery_type = lt, draw_date = dd, ticket_count = cnt, amount_spent = amount,
           won = 0, drawn = 0, purchased_at = now\<rparr>]\<rparr>"

text \<open>\<^verbatim>\<open>UPDATE lottery_pot SET pot = pot + ? WHERE lottery_type=?\<close>\<close>

definition update_lottery_pot :: "lottery_db \<Rightarrow> string \<Rightarrow> sol \<Rightarrow> lottery_db" where
  "update_lottery_pot d lt additional_amount =
     (case lottery_pot d lt of
        None \<Rightarrow> d
      | Some r \<Rightarrow> d\<lparr>lottery_pot := (lottery_pot d)(lt \<mapsto> r\<lparr>pot := pot r + additional_amount\<rparr>)\<rparr>)"

text \<open>\<^verbatim>\<open>UPDATE lottery_pot SET pot = 0.0 WHERE lottery_type=?\<close>\<close>

definition reset_lottery_pot :: "lottery_db \<Rightarrow> string \<Rightarrow> lottery_db" where
  "reset_lottery_pot d lt =
     (case lottery_pot d lt of
        None \<Rightarrow> d
      | Some r \<Rightarrow> d\<lparr>lottery_pot := (lottery_pot d)(lt \<mapsto> r\<lparr>pot := 0\<rparr>)\<rparr>)"

definition get_lottery_info :: "lottery_db \<Rightarrow> string \<Rightarrow> pot_row option" where
  "get_lottery_info d lt = lottery_pot d lt"

text \<open>\<^verbatim>\<open>UPDATE lottery_tickets SET drawn = 1 WHERE lottery_type=? AND draw_date=? AND drawn=0\<close>\<close>

definition mark_tickets_drawn :: "lottery_db \<Rightarrow> string \<Rightarrow> datetime \<Rightarrow> lottery_db" where
  "mark_tickets_drawn d lt dd =
     d\<lparr>lottery_tickets :=
         map (\<lambda>t. if lottery_type t = lt \<and> draw_date t = dd \<and> drawn t = 0
                  then t\<lparr>drawn := 1\<rparr> else t)
           (lottery_tickets d)\<rparr>"

text \<open>
  The two statements \<^verbatim>\<open>draw_job_callback\<close> runs on the tickets: the SELECT of the
  window's undrawn rows, and the UPDATE that adds a prize to a winner's rows of the
  window.
\<close>

definition select_undrawn :: "lottery_db \<Rightarrow> string \<Rightarrow> datetime \<Rightarrow> (int \<times> int) list" where
  "select_undrawn d lt dd =
     map (\<lambda>t. (telegram_id t, ticket_count t))
       (filter (\<lambda>t. lottery_type t = lt \<and> draw_date t = dd \<and> drawn t = 0)
          (lottery_tickets d))"

definition add_won :: "lottery_db \<Rightarrow> sol \<Rightarrow> int \<Rightarrow> string \<Rightarrow> datetime \<Rightarrow> lottery_db" where
  "add_won d prize winner_id lt dd =
     d\<lparr>lottery_tickets :=
         map (\<lambda>t. if telegram_id t = winner_id \<and> lottery_type t = lt \<and> draw_date t = dd
                  then t\<lparr>won := won t + prize\<rparr> else t)
           (lottery_tickets d)\<rparr>"

text \<open>The pot of a cadence, and the amounts paid for a window's undrawn tickets.\<close>

definition pot_of :: "lottery_db \<Rightarrow> string \<Rightarrow> sol" where
  "pot_of d lt = (case get_lottery_info d lt of None \<Rightarrow> 0 | Some r \<Rightarrow> pot r)"

definition unsettled_amount :: "lottery_db \<Rightarrow> string \<Rightarrow> datetime \<Rightarrow> sol" where
  "unsettled_amount d lt dd =
     sum_list (map amount_spent
       (filter (\<lambda>t. lottery_type t = lt \<and> draw_date t = dd \<and> drawn t = 0)
          (lottery_tickets d)))"

section \<open>The scheduler\<close>

text \<open>
  \<^verbatim>\<open>job_queue.run_once(draw_job_callback, delay, name, data)\<close>: the job queue is
  the list of the jobs handed to it. It lives in memory only: \<^verbatim>\<open>main\<close> builds a
  new application, with an empty queue, at every start. \<open>now1\<close> is the clock reading
  inside \<^verbatim>\<open>get_next_draw_datetime\<close>, \<open>now2\<close> the one after it. The delay is in
  seconds.
\<close>

record job =
  job_name :: string
  job_delay :: rat
  job_lottery_type :: string
  job_draw_datetime :: datetime

definition total_seconds :: "int \<Rightarrow> rat" where
  "total_seconds us = of_int us / 1000000"

definition schedule_draw :: "string \<Rightarrow> datetime \<Rightarrow> datetime \<Rightarrow> job list \<Rightarrow> job list" where
  "schedule_draw lt now1 now2 job_queue =
     (let next_draw_dt = get_next_draw_datetime lt now1;
          delay = total_seconds (next_draw_dt - now2);
          delay' = (if delay < 0 then 0 else delay)
      in job_queue @
           [\<lparr>job_name = lt, job_delay = delay', job_lottery_type = lt,
             job_draw_datetime = next_draw_dt\<rparr>])"

text \<open>The three \<^verbatim>\<open>schedule_draw\<close> calls of \<^verbatim>\<open>main\<close>, on the new queue.\<close>

definition main_schedule :: "datetime \<Rightarrow> job list" where
  "main_schedule now =
     schedule_draw ''weekly'' now now
       (schedule_draw ''daily'' now now
         (schedule_draw ''hourly'' now now []))"

section \<open>The draw\<close>

text \<open>
  \<^verbatim>\<open>entries.extend([telegram_id] * ticket_count)\<close> for each row; a count below one
  adds nothing.
\<close>

definition expand_entries :: "(int \<times> int) list \<Rightarrow> int list" where
  "expand_entries rows = concat (map (\<lambda>(tid, cnt). replicate (nat cnt) tid) rows)"

text \<open>
  \<^verbatim>\<open>secrets.choice(seq)\<close> is \<^verbatim>\<open>seq[randbelow(len(seq))]\<close>. The random source is an
  argument: a natural number \<open>r\<close>, of which the index \<open>r mod length seq\<close> is used, so
  that every element of a non-empty list can be chosen. The source calls it on
  non-empty lists only.
\<close>

definition secrets_choice :: "nat \<Rightarrow> 'a list \<Rightarrow> 'a" where
  "secrets_choice r seq = seq ! (r mod length seq)"

text \<open>
  The winner selection of \<^verbatim>\<open>draw_job_callback\<close>: three picks in a row, each
  under its own \<^verbatim>\<open>if remaining_entries:\<close>; the first two remove every entry of
  the owner picked.
\<close>

definition select_winners :: "nat \<times> nat \<times> nat \<Rightarrow> int list \<Rightarrow> int list" where
  "select_winners rnd entries =
     (case rnd of (r1, r2, r3) \<Rightarrow>
        (let winners = [];
             remaining_entries = entries;
             (winners, remaining_entries) =
               (if remaining_entries \<noteq> [] then
                  (let first = secrets_choice r1 remaining_entries
                   in (winners @ [first], filter (\<lambda>x. x \<noteq> first) remaining_entries))
                else (winners, remaining_entries));
             (winners, remaining_entries) =
               (if remaining_entries \<noteq> [] then
                  (let second = secrets_choice r2 remaining_entries
                   in (winners @ [second], filter (\<lambda>x. x \<noteq> second) remaining_entries))
                else (winners, remaining_entries));
             winners =
               (if remaining_entries \<noteq> [] then
                  (let third = secrets_choice r3 remaining_entries
                   in winners @ [third])
                else winners)
         in winners))"

text \<open>
  The state the draw and the purchase change: the lottery database, the transactions
  submitted to the network, and the job queue.
\<close>

record bot_state =
  db :: lottery_db
  sent :: "transaction list"
  job_queue :: "job list"

text \<open>
  The loop over the winners. \<open>i\<close> is the index of \<^verbatim>\<open>enumerate\<close>; each entry of
  the results is the winner, the prize asked for and the transaction result or the
  failure text.
\<close>

fun pay_winners ::
  "gateway \<Rightarrow> config \<Rightarrow> (int \<rightharpoonup> user) \<Rightarrow> string \<Rightarrow> datetime \<Rightarrow> sol list \<Rightarrow> nat \<Rightarrow> int list
     \<Rightarrow> lottery_db \<times> transaction list \<times> (int \<times> sol \<times> string) list
     \<Rightarrow> lottery_db \<times> transaction list \<times> (int \<times> sol \<times> string) list" where
  "pay_winners gw cfg users lt dd prizes i [] st = st"
| "pay_winners gw cfg users lt dd prizes i (winner_id # rest) (d, snt, results) =
     (let prize = (if i < length prizes then prizes ! i else 0)
      in case get_user users winner_id of
           None \<Rightarrow>
             pay_winners gw cfg users lt dd prizes (Suc i) rest
               (d, snt, results @ [(winner_id, prize, ''Winner not found'')])
         | Some winner \<Rightarrow>
             (case transfer_sol gw snt (OPERATOR_PRIVATE_KEY_BASE58 cfg)
                     (wallet_address winner) prize True of
                (snt', tx_hash) \<Rightarrow>
                  (case tx_hash of
                     None \<Rightarrow>
                       pay_winners gw cfg users lt dd prizes (Suc i) rest
                         (d, snt', results @ [(winner_id, prize, ''Transfer failed'')])
                   | Some h \<Rightarrow>
                       if h \<noteq> [] then
                         pay_winners gw cfg users lt dd prizes (Suc i) rest
                           (add_won d prize winner_id lt dd, snt',
                            results @ [(winner_id, prize, h)])
                       else
                         pay_winners gw cfg users lt dd prizes (Suc i) rest
                           (d, snt', results @ [(winner_id, prize, ''Transfer failed'')]))))"

text \<open>What one draw computed; \<open>None\<close> stands for a window without undrawn tickets.\<close>

record draw_outcome =
  out_winners :: "int list"
  out_total_pot :: sol
  out_operator_cut :: sol
  out_operator_cut_tx_hash :: "string option"
  out_remaining_pot :: sol
  out_prizes :: "sol list"
  out_results :: "(int \<times> sol \<times> string) list"

text \<open>
  \<^verbatim>\<open>draw_job_callback\<close>. \<open>rnd\<close> is the random source of the three picks,
  \<open>now1\<close> and \<open>now2\<close> are the clock readings of the \<^verbatim>\<open>schedule_draw\<close> call at
  its end. The broadcast of the result text to the participants changes none of the
  state and is left out. The body calls neither \<^verbatim>\<open>mark_tickets_drawn\<close> nor
  \<^verbatim>\<open>reset_lottery_pot\<close>; no function of the source does.
\<close>

definition draw_job_callback ::
  "gateway \<Rightarrow> config \<Rightarrow> (int \<rightharpoonup> user) \<Rightarrow> nat \<times> nat \<times> nat \<Rightarrow> datetime \<Rightarrow> datetime
     \<Rightarrow> job \<Rightarrow> bot_state \<Rightarrow> bot_state \<times> draw_outcome option" where
  "draw_job_callback gw cfg users rnd now1 now2 data s =
     (let lt = job_lottery_type data;
          scheduled_draw_dt = job_draw_datetime data;
          rows = select_undrawn (db s) lt scheduled_draw_dt
      in if rows = [] then
           (s\<lparr>job_queue := schedule_draw lt now1 now2 (job_queue s)\<rparr>, None)
         else
           (let entries = expand_entries rows;
                winners = select_winners rnd entries;
                lottery_info = get_lottery_info (db s) lt;
                total_pot = (case lottery_info of None \<Rightarrow> 0 | Some r \<Rightarrow> pot r);
                operator_cut = total_pot * OPERATOR_CUT_PERCENT;
                remaining_pot = total_pot - operator_cut
            in case (case OPERATOR_PAYOUT_WALLET_ADDRESS cfg of
                       Some payout \<Rightarrow>
                         (case transfer_sol gw (sent s) (OPERATOR_PRIVATE_KEY_BASE58 cfg)
                                 payout operator_cut False of
                            (snt, operator_cut_tx_hash) \<Rightarrow>
                              (snt, operator_cut_tx_hash, remaining_pot))
                     | None \<Rightarrow> (sent s, None, total_pot)) of
                 (snt, operator_cut_tx_hash, remaining_pot) \<Rightarrow>
                   (let prizes = [remaining_pot * (70 / 100), remaining_pot * (20 / 100),
                                  remaining_pot * (10 / 100)]
                    in case pay_winners gw cfg users lt scheduled_draw_dt prizes 0 winners
                              (db s, snt, []) of
                         (d', snt', results) \<Rightarrow>
                           (s\<lparr>db := d', sent := snt',
                              job_queue := schedule_draw lt now1 now2 (job_queue s)\<rparr>,
                            Some \<lparr>out_winners = winners, out_total_pot = total_pot,
                                  out_operator_cut = operator_cut,
                                  out_operator_cut_tx_hash = operator_cut_tx_hash,
                                  out_remaining_pot = remaining_pot, out_prizes = prizes,
                                  out_results = results\<rparr>))))"

section \<open>The purchase\<close>

text \<open>
  The pending purchase that \<^verbatim>\<open>buy_ticket_*_callback\<close> left in the caller's
  \<^verbatim>\<open>user_data\<close>, and \<^verbatim>\<open>confirm_buy_ticket_*_callback\<close>. The three confirm
  handlers differ in the cadence text only, which is the argument \<open>lt\<close> here;
  \<open>now1\<close> is the clock reading of \<^verbatim>\<open>get_next_draw_datetime\<close>, \<open>now2\<close> the one
  of \<^verbatim>\<open>add_ticket\<close>. The messages to the user are left out.
\<close>

record purchase =
  p_lottery_type :: string
  p_ticket_price :: sol
  p_fee :: sol
  p_total_cost :: sol

definition confirm_buy_ticket_callback ::
  "string \<Rightarrow> gateway \<Rightarrow> config \<Rightarrow> (int \<rightharpoonup> user) \<Rightarrow> int \<Rightarrow> datetime \<Rightarrow> datetime
     \<Rightarrow> purchase option \<Rightarrow> bot_state \<Rightarrow> bot_state \<times> purchase option" where
  "confirm_buy_ticket_callback lt gw cfg users tid now1 now2 pending_purchase s =
     (case get_user users tid of
        None \<Rightarrow> (s, pending_purchase)
      | Some usr \<Rightarrow>
          (case pending_purchase of
             None \<Rightarrow> (s, pending_purchase)
           | Some purchase \<Rightarrow>
               (let price = p_ticket_price purchase
                in case transfer_sol gw (sent s) (private_key usr)
                          (str_of (OPERATOR_WALLET_ADDRESS cfg)) price False of
                     (snt, tx_hash) \<Rightarrow>
                       if truthy tx_hash then
                         (let draw_dt = get_next_draw_datetime lt now1
                          in (s\<lparr>db := update_lottery_pot
                                         (add_ticket (db s) tid lt draw_dt 1 price now2)
                                         lt price,
                                sent := snt\<rparr>, None))
                       else (s\<lparr>sent := snt\<rparr>, None))))"

definition confirm_buy_ticket_hourly_callback where
  "confirm_buy_ticket_hourly_callback = confirm_buy_ticket_callback ''hourly''"

definition confirm_buy_ticket_daily_callback where
  "confirm_buy_ticket_daily_callback = confirm_buy_ticket_callback ''daily''"

definition confirm_buy_ticket_weekly_callback where
  "confirm_buy_ticket_weekly_callback = confirm_buy_ticket_callback ''weekly''"

section \<open>Test fixtures\<close>

text \<open>
  A simulated network for evaluating the functions on concrete inputs: every key and
  address is accepted, the address of the private key \<open>k\<close> is \<open>pub_k\<close>, the
  balance of an address is its initial balance plus what the submitted transactions
  moved to it minus what they moved from it (in lamports, no fees), and every
  submitted transaction is accepted with the result \<open>sig\<close>. \<open>gateway_down\<close> raises
  at every call.
\<close>

definition sim_balance :: "(string \<Rightarrow> int) \<Rightarrow> transaction list \<Rightarrow> string \<Rightarrow> int" where
  "sim_balance initial snt a =
     initial a + sum_list (map lamports (filter (\<lambda>t. to_public_key t = a) snt))
       - sum_list (map lamports (filter (\<lambda>t. from_public_key t = a) snt))"

definition sim_gateway :: "(string \<Rightarrow> int) \<Rightarrow> gateway" where
  "sim_gateway initial =
     \<lparr>Keypair_from_private_key = (\<lambda>k. Inr (''pub_'' @ k)),
      rpc_get_balance = (\<lambda>snt a. Inr (sim_balance initial snt a)),
      PublicKey = (\<lambda>a. Inr a),
      transfer_instruction = (\<lambda>a b n. None),
      get_latest_blockhash = (\<lambda>snt. Inr ''blockhash''),
      send_transaction = (\<lambda>snt t. Inr ''sig'')\<rparr>"


text \<open>The operator holds \<open>n\<close> lamports, every other address 10 SOL.\<close>

definition operator_holds :: "int \<Rightarrow> string \<Rightarrow> int" where
  "operator_holds n a = (if a = ''pub_operator'' then n else 10000000000)"

definition test_config :: config where
  "test_config =
     \<lparr>OPERATOR_PRIVATE_KEY_BASE58 = ''operator'',
      OPERATOR_WALLET_ADDRESS = Some ''pub_operator'',
      OPERATOR_PAYOUT_WALLET_ADDRESS = Some ''payout''\<rparr>"


text \<open>Users 1 to 4, with the wallets \<open>pub_u1\<close> to \<open>pub_u4\<close>.\<close>

definition test_users :: "int \<rightharpoonup> user" where
  "test_users =
     [1 \<mapsto> \<lparr>wallet_address = ''pub_u1'', private_key = ''u1'', username = ''one''\<rparr>,
      2 \<mapsto> \<lparr>wallet_address = ''pub_u2'', private_key = ''u2'', username = ''two''\<rparr>,
      3 \<mapsto> \<lparr>wallet_address = ''pub_u3'', private_key = ''u3'', username = ''three''\<rparr>,
      4 \<mapsto> \<lparr>wallet_address = ''pub_u4'', private_key = ''u4'', username = ''four''\<rparr>]"

text \<open>
  Day 6 of the calendar is a Sunday. User 1 confirms an hourly purchase at 10:30 on a
  newly initialised database, which books the ticket for the 11:00 window; the job
  for that window is the one \<^verbatim>\<open>schedule_draw\<close> made at 10:00.
\<close>

definition hourly_purchase :: purchase where
  "hourly_purchase =
     \<lparr>p_lottery_type = ''hourly'', p_ticket_price = TICKET_PRICE_SOL, p_fee = 0,
      p_total_cost = TICKET_PRICE_SOL\<rparr>"

definition fresh_state :: bot_state where
  "fresh_state =
     \<lparr>db = init_lottery_db empty_db, sent = [],
      job_queue = schedule_draw ''hourly'' (at_day_time 6 10 0) (at_day_time 6 10 0) []\<rparr>"

definition one_ticket_state :: bot_state where
  "one_ticket_state =
     fst (confirm_buy_ticket_hourly_callback (sim_gateway (operator_holds 10000000000))
            test_config test_users 1 (at_day_time 6 10 30) (at_day_time 6 10 30)
            (Some hourly_purchase) fresh_state)"

definition job_1100 :: job where
  "job_1100 =
     \<lparr>job_name = ''hourly'', job_delay = 3600, job_lottery_type = ''hourly'',
      job_draw_datetime = at_day_time 6 11 0\<rparr>"

text \<open>
  The 11:00 job run on that state, and run a second time on the state the first run
  left. The operator holds 10 SOL and the random source is \<open>(0, 0, 0)\<close>.
\<close>

definition first_draw :: "bot_state \<times> draw_outcome option" where
  "first_draw =
     draw_job_callback (sim_gateway (operator_holds 10000000000)) test_config test_users
       (0, 0, 0) (at_day_time 6 11 0) (at_day_time 6 11 0) job_1100 one_ticket_state"

definition second_draw :: "bot_state \<times> draw_outcome option" where
  "second_draw =
     draw_job_callback (sim_gateway (operator_holds 10000000000)) test_config test_users
       (0, 0, 0) (at_day_time 6 11 0) (at_day_time 6 11 0) job_1100 (fst first_draw)"






text \<open>
  The process is down from 10:45 to 11:15: \<^verbatim>\<open>main\<close> runs again at 11:15 on the
  database that holds the ticket of the 11:00 window, and the hourly job it scheduled
  runs at 12:00.
\<close>

definition restart_state :: bot_state where
  "restart_state = one_ticket_state\<lparr>job_queue := main_schedule (at_day_time 6 11 15)\<rparr>"

definition draw_after_restart :: "bot_state \<times> draw_outcome option" where
  "draw_after_restart =
     draw_job_callback (sim_gateway (operator_holds 10000000000)) test_config test_users
       (0, 0, 0) (at_day_time 6 12 0) (at_day_time 6 12 0) (hd (job_queue restart_state))
       restart_state"







section \<open>Lemmas about the draw times\<close>

lemma next_hourly:
  "get_next_draw_datetime ''hourly'' now = now - now mod HOUR_US + HOUR_US"
proof -
  have "(now + HOUR_US) mod HOUR_US = now mod HOUR_US"
    by simp
  then show ?thesis
    by (simp add: get_next_draw_datetime_def replace_top_of_hour_def)
qed

lemma mod_day_bounds: "0 \<le> now mod DAY_US \<and> now mod DAY_US < DAY_US"
  by (simp add: DAY_US_def)

lemma mod_hour_bounds: "0 \<le> now mod HOUR_US \<and> now mod HOUR_US < HOUR_US"
  by (simp add: HOUR_US_def)

lemma replace_2000_time: "time_of_day (replace_2000 dt + k * DAY_US) = 20 * HOUR_US"
proof -
  have "replace_2000 dt + k * DAY_US = 20 * HOUR_US + (dt div DAY_US + k) * DAY_US"
    by (simp add: replace_2000_def minus_mod_eq_div_mult algebra_simps)
  then have "time_of_day (replace_2000 dt + k * DAY_US) = (20 * HOUR_US) mod DAY_US"
    unfolding time_of_day_def by (metis mod_mult_self1)
  then show ?thesis
    by (simp add: HOUR_US_def DAY_US_def)
qed

lemma replace_2000_weekday: "weekday (replace_2000 dt + k * DAY_US) = (weekday dt + k) mod 7"
proof -
  have e: "replace_2000 dt + k * DAY_US = 20 * HOUR_US + (dt div DAY_US + k) * DAY_US"
    by (simp add: replace_2000_def minus_mod_eq_div_mult algebra_simps)
  have "(20 * HOUR_US + (dt div DAY_US + k) * DAY_US) div DAY_US = dt div DAY_US + k"
    by (simp add: HOUR_US_def DAY_US_def)
  then show ?thesis
    unfolding weekday_def e by (simp add: mod_add_left_eq)
qed

lemma next_hourly_ok:
  "now < get_next_draw_datetime ''hourly'' now \<and>
   get_next_draw_datetime ''hourly'' now \<le> now + HOUR_US \<and>
   get_next_draw_datetime ''hourly'' now mod HOUR_US = 0"
proof -
  have b: "0 \<le> now mod HOUR_US \<and> now mod HOUR_US < HOUR_US" by (rule mod_hour_bounds)
  have "(now - now mod HOUR_US + HOUR_US) mod HOUR_US = 0"
    by (simp add: minus_mod_eq_div_mult)
  with b show ?thesis unfolding next_hourly by simp
qed

lemma next_daily_ok:
  "now < get_next_draw_datetime ''daily'' now \<and>
   get_next_draw_datetime ''daily'' now \<le> now + DAY_US \<and>
   time_of_day (get_next_draw_datetime ''daily'' now) = 20 * HOUR_US"
proof -
  have b: "0 \<le> now mod DAY_US \<and> now mod DAY_US < DAY_US" by (rule mod_day_bounds)
  have t0: "time_of_day (replace_2000 now) = 20 * HOUR_US"
    using replace_2000_time [of now 0] by simp
  have t1: "time_of_day (replace_2000 now + DAY_US) = 20 * HOUR_US"
    using replace_2000_time [of now 1] by simp
  have r: "replace_2000 now = now - now mod DAY_US + 20 * HOUR_US"
    by (simp add: replace_2000_def)
  have h: "20 * HOUR_US < DAY_US" "0 < HOUR_US" by (simp_all add: HOUR_US_def DAY_US_def)
  show ?thesis
  proof (cases "now < replace_2000 now")
    case True
    then have "get_next_draw_datetime ''daily'' now = replace_2000 now"
      by (simp add: get_next_draw_datetime_def)
    moreover have "replace_2000 now \<le> now + DAY_US"
      using r b h by linarith
    ultimately show ?thesis using True t0 by simp
  next
    case False
    then have "get_next_draw_datetime ''daily'' now = replace_2000 now + DAY_US"
      by (simp add: get_next_draw_datetime_def)
    moreover have "now < replace_2000 now + DAY_US"
      using r b h by linarith
    ultimately show ?thesis using False t1 by simp
  qed
qed

lemma days_ahead_bounds: "0 \<le> (6 - weekday now) mod 7 \<and> (6 - weekday now) mod 7 \<le> 6"
  by simp

lemma sunday_after: "(weekday now + (6 - weekday now) mod 7) mod 7 = 6"
  by (simp add: mod_add_right_eq)

lemma next_weekly_ok:
  "now < get_next_draw_datetime ''weekly'' now \<and>
   get_next_draw_datetime ''weekly'' now \<le> now + 7 * DAY_US \<and>
   time_of_day (get_next_draw_datetime ''weekly'' now) = 20 * HOUR_US \<and>
   weekday (get_next_draw_datetime ''weekly'' now) = 6"
proof -
  define k where "k = (6 - weekday now) mod 7"
  define dd where "dd = replace_2000 now + k * DAY_US"
  have kb: "0 \<le> k" "k \<le> 6" by (simp_all add: k_def)
  have b: "0 \<le> now mod DAY_US" "now mod DAY_US < DAY_US" using mod_day_bounds by simp_all
  have h: "20 * HOUR_US < DAY_US" "0 < HOUR_US" "0 < DAY_US" by (simp_all add: HOUR_US_def DAY_US_def)
  have r: "dd = now - now mod DAY_US + 20 * HOUR_US + k * DAY_US"
    by (simp add: dd_def replace_2000_def)
  have kd: "0 \<le> k * DAY_US" "k * DAY_US \<le> 6 * DAY_US" using kb h by simp_all
  have t0: "time_of_day dd = 20 * HOUR_US"
    unfolding dd_def by (rule replace_2000_time)
  have t1: "time_of_day (dd + 7 * DAY_US) = 20 * HOUR_US"
    using replace_2000_time [of now "k + 7"] by (simp add: dd_def algebra_simps)
  have w0: "weekday dd = 6"
    unfolding dd_def replace_2000_weekday k_def by (rule sunday_after)
  have "(weekday now + (k + 7)) mod 7 = (weekday now + k) mod 7"
    by (simp add: add.assoc [symmetric])
  then have "weekday (replace_2000 now + (k + 7) * DAY_US) = 6"
    unfolding replace_2000_weekday k_def using sunday_after [of now] by simp
  then have w1: "weekday (dd + 7 * DAY_US) = 6"
    by (simp add: dd_def algebra_simps)
  show ?thesis
  proof (cases "now < dd")
    case True
    then have "get_next_draw_datetime ''weekly'' now = dd"
      by (simp add: get_next_draw_datetime_def dd_def k_def Let_def)
    moreover have "dd \<le> now + 7 * DAY_US"
      using r b h kd by linarith
    ultimately show ?thesis using True t0 w0 by simp
  next
    case False
    then have "get_next_draw_datetime ''weekly'' now = dd + 7 * DAY_US"
      by (simp add: get_next_draw_datetime_def dd_def k_def Let_def)
    moreover have "now < dd + 7 * DAY_US"
      using r b h kd by linarith
    ultimately show ?thesis using False t1 w1 by simp
  qed
qed

section \<open>Lemmas about the transfer and the draw\<close>





lemma add_won_pot: "lottery_pot (add_won d prize w lt dd) = lottery_pot d"
  by (simp add: add_won_def)

lemma undrawn_rows_map:
  "map (\<lambda>t. (telegram_id t, ticket_count t))
     (filter (\<lambda>t. lottery_type t = lt' \<and> draw_date t = dd' \<and> drawn t = 0)
        (map (\<lambda>t. if C t then t\<lparr>won := won t + prize\<rparr> else t) ts))
   = map (\<lambda>t. (telegram_id t, ticket_count t))
       (filter (\<lambda>t. lottery_type t = lt' \<and> draw_date t = dd' \<and> drawn t = 0) ts)"
  by (induction ts) auto

lemma add_won_undrawn: "select_undrawn (add_won d prize w lt dd) lt' dd' = select_undrawn d lt' dd'"
  unfolding add_won_def select_undrawn_def by (simp add: undrawn_rows_map)

lemma pay_winners_pot:
  "pay_winners gw cfg users lt dd prizes i ws (d, snt, res) = (d', snt', res')
     \<Longrightarrow> lottery_pot d' = lottery_pot d"
proof (induction ws arbitrary: i d snt res)
  case Nil
  then show ?case by simp
next
  case (Cons w ws)
  then show ?case
    by (auto simp: Let_def add_won_pot split: option.splits prod.splits if_splits)
qed

lemma pay_winners_undrawn:
  "pay_winners gw cfg users lt dd prizes i ws (d, snt, res) = (d', snt', res')
     \<Longrightarrow> select_undrawn d' lt' dd' = select_undrawn d lt' dd'"
proof (induction ws arbitrary: i d snt res)
  case Nil
  then show ?case by simp
next
  case (Cons w ws)
  then show ?case
    by (auto simp: Let_def add_won_undrawn split: option.splits prod.splits if_splits)
qed

lemma draw_keeps_pot:
  "lottery_pot (db (fst (draw_job_callback gw cfg users rnd now1 now2 data s))) = lottery_pot (db s)"
  unfolding draw_job_callback_def Let_def
  by (auto split: option.splits prod.splits dest: pay_winners_pot)

lemma draw_keeps_undrawn:
  "select_undrawn (db (fst (draw_job_callback gw cfg users rnd now1 now2 data s))) lt' dd'
     = select_undrawn (db s) lt' dd'"
  unfolding draw_job_callback_def Let_def
  by (auto split: option.splits prod.splits dest: pay_winners_undrawn)


lemma secrets_choice_mem: "seq \<noteq> [] \<Longrightarrow> secrets_choice r seq \<in> set seq"
  by (simp add: secrets_choice_def)

lemma set_remove_owner: "set (filter (\<lambda>x. x \<noteq> a) xs) = set xs - {a}"
  by auto

lemma card_remove_owner:
  "a \<in> set xs \<Longrightarrow> card (set (filter (\<lambda>x. x \<noteq> a) xs)) = card (set xs) - 1"
proof -
  assume "a \<in> set xs"
  then have "card (set xs - {a}) = card (set xs) - 1"
    by (simp add: card_Diff_singleton)
  then show ?thesis
    by (simp only: set_remove_owner)
qed

lemma card_pos_nonempty: "xs \<noteq> [] \<Longrightarrow> 0 < card (set xs)"
  by (simp add: card_gt_0_iff)








section \<open>Running the same draw twice\<close>

text \<open>
  What the unused helper would do: \<^verbatim>\<open>mark_tickets_drawn\<close> marks the undrawn rows
  of a window and skips the drawn ones, so that marking twice is marking once; after
  it the window has no undrawn row, and a draw that finds no undrawn row selects
  nothing, submits nothing and leaves the database as it is.
\<close>

lemma mark_tickets_drawn_idempotent:
  "mark_tickets_drawn (mark_tickets_drawn d lt dd) lt dd = mark_tickets_drawn d lt dd"
  by (simp add: mark_tickets_drawn_def)

lemma mark_tickets_drawn_settles:
  "select_undrawn (mark_tickets_drawn d lt dd) lt dd = []"
  by (simp add: mark_tickets_drawn_def select_undrawn_def filter_map filter_empty_conv)

lemma draw_without_rows:
  assumes "select_undrawn (db s) (job_lottery_type data) (job_draw_datetime data) = []"
  shows "snd (draw_job_callback gw cfg users rnd now1 now2 data s) = None \<and>
         db (fst (draw_job_callback gw cfg users rnd now1 now2 data s)) = db s \<and>
         sent (fst (draw_job_callback gw cfg users rnd now1 now2 data s)) = sent s"
  using assms by (simp add: draw_job_callback_def)

text \<open>
  For every state, job and gateway, a draw leaves the undrawn rows of every window as
  they were (lemma \<open>draw_keeps_undrawn\<close>): it adds prizes to \<^verbatim>\<open>won\<close> and never
  sets \<^verbatim>\<open>drawn\<close>. So a second run of a job reads the rows its first run read.

  Claim C1. The claim is that a second run of the draw of the same cadence and window
  selects no winner and requests no transfer. On the source it does both: user 1
  holds the one ticket of the hourly window 11:00; after the first run of the 11:00
  job the row is still undrawn, the second run selects user 1 again, and each run
  submits two more transactions (the operator cut and the prize), the second one
  adding the prize to the ticket a second time.
\<close>

theorem draw_twice_selects_and_pays_twice:
  "select_undrawn (db one_ticket_state) ''hourly'' (at_day_time 6 11 0) = [(1, 1)] \<and>
   select_undrawn (db (fst first_draw)) ''hourly'' (at_day_time 6 11 0) = [(1, 1)] \<and>
   map_option out_winners (snd first_draw) = Some [1] \<and>
   map_option out_winners (snd second_draw) = Some [1] \<and>
   length (sent one_ticket_state) = 1 \<and>
   length (sent (fst first_draw)) = 3 \<and>
   length (sent (fst second_draw)) = 5 \<and>
   map won (lottery_tickets (db (fst first_draw))) = [63 / 100000] \<and>
   map won (lottery_tickets (db (fst second_draw))) = [126 / 100000] \<and>
   map drawn (lottery_tickets (db (fst second_draw))) = [0]"
  by code_simp

section \<open>The pot\<close>

text \<open>
  What holds of the pot: a purchase adds its amount to the pot of its cadence and to
  the amounts paid for the undrawn tickets of its window, so after \<open>N\<close> purchases
  of the amount \<open>a\<close> the pot has grown by \<open>N * a\<close>, from zero on a new database.
\<close>

lemma purchase_adds_to_pot:
  "lottery_pot d lt = Some r \<Longrightarrow>
   pot_of (update_lottery_pot (add_ticket d tid lt dd cnt a now) lt a) lt = pot_of d lt + a"
  by (simp add: pot_of_def get_lottery_info_def update_lottery_pot_def add_ticket_def)

lemma purchase_adds_to_unsettled:
  "unsettled_amount (update_lottery_pot (add_ticket d tid lt dd cnt a now) lt a) lt dd
     = unsettled_amount d lt dd + a"
  by (simp add: unsettled_amount_def update_lottery_pot_def add_ticket_def split: option.splits)

lemma purchase_keeps_pot_row:
  "lottery_pot d lt = Some r \<Longrightarrow>
   \<exists>r'. lottery_pot (update_lottery_pot (add_ticket d tid lt dd cnt a now) lt a) lt = Some r'"
  by (simp add: update_lottery_pot_def add_ticket_def)

lemma pot_after_purchases:
  "lottery_pot d lt = Some r \<Longrightarrow>
   pot_of (fold (\<lambda>tid d. update_lottery_pot (add_ticket d tid lt dd 1 a now) lt a) tids d) lt
     = pot_of d lt + of_nat (length tids) * a"
proof (induction tids arbitrary: d r)
  case Nil
  then show ?case by simp
next
  case (Cons tid tids)
  from purchase_keeps_pot_row [OF Cons.prems] obtain r' where
    "lottery_pot (update_lottery_pot (add_ticket d tid lt dd 1 a now) lt a) lt = Some r'"
    by blast
  from Cons.IH [OF this] show ?case
    by (simp add: purchase_adds_to_pot [OF Cons.prems] algebra_simps)
qed

lemma init_pots_zero:
  "pot_of (init_lottery_db empty_db) ''hourly'' = 0 \<and>
   pot_of (init_lottery_db empty_db) ''daily'' = 0 \<and>
   pot_of (init_lottery_db empty_db) ''weekly'' = 0"
  by code_simp

lemma reset_lottery_pot_zero: "pot_of (reset_lottery_pot d lt) lt = 0"
  by (simp add: reset_lottery_pot_def pot_of_def get_lottery_info_def split: option.splits)

text \<open>
  What does not: \<^verbatim>\<open>reset_lottery_pot\<close> would set the pot to zero (lemma
  \<open>reset_lottery_pot_zero\<close>), but it is never called, and no draw changes any pot
  (lemma \<open>draw_keeps_pot\<close>).

  Claim C2. The claim is that the pot of a cadence is the sum of the amounts paid for
  the unsettled tickets of its current window, and is zero once the window's draw is
  done. On the source, before the 11:00 draw the hourly pot and that sum are both
  0.001 SOL; the draw finds the ticket and selects user 1; after it the hourly pot is
  still 0.001 SOL, while nothing has been paid into the window 12:00 that is now
  current.
\<close>

theorem draw_leaves_pot_unreset:
  "pot_of (db one_ticket_state) ''hourly'' = 1 / 1000 \<and>
   unsettled_amount (db one_ticket_state) ''hourly'' (at_day_time 6 11 0) = 1 / 1000 \<and>
   map_option out_winners (snd first_draw) = Some [1] \<and>
   pot_of (db (fst first_draw)) ''hourly'' = 1 / 1000 \<and>
   unsettled_amount (db (fst first_draw)) ''hourly'' (at_day_time 6 12 0) = 0"
  by code_simp

section \<open>Winner selection\<close>

text \<open>
  Claim C3. For every draw pool and every outcome of the random source, the winners
  are pairwise distinct owners of the pool, and there are exactly as many of them as
  the pool has distinct owners, up to three: three from three or more owners, two
  from two, one from one. (The empty pool, which the source never draws from, gives
  no winner.)
\<close>

theorem select_winners_distinct_owners:
  "distinct (select_winners rnd entries) \<and>
   set (select_winners rnd entries) \<subseteq> set entries \<and>
   length (select_winners rnd entries) = min 3 (card (set entries))"
proof -
  obtain r1 r2 r3 where rnd: "rnd = (r1, r2, r3)"
    by (cases rnd) auto
  show ?thesis
  proof (cases "entries = []")
    case True
    then show ?thesis by (simp add: select_winners_def rnd)
  next
    case ne1: False
    define first where "first = secrets_choice r1 entries"
    define rem1 where "rem1 = filter (\<lambda>x. x \<noteq> first) entries"
    have f_in: "first \<in> set entries"
      unfolding first_def using ne1 by (rule secrets_choice_mem)
    have c1: "card (set rem1) = card (set entries) - 1"
      unfolding rem1_def using f_in by (rule card_remove_owner)
    have p1: "0 < card (set entries)" using ne1 by (rule card_pos_nonempty)
    show ?thesis
    proof (cases "rem1 = []")
      case True
      then have w: "select_winners rnd entries = [first]"
        using ne1 by (simp add: select_winners_def rnd first_def rem1_def)
      from True c1 p1 have "card (set entries) = 1" by simp
      with w f_in show ?thesis by simp
    next
      case ne2: False
      define second where "second = secrets_choice r2 rem1"
      define rem2 where "rem2 = filter (\<lambda>x. x \<noteq> second) rem1"
      have s_in: "second \<in> set rem1"
        unfolding second_def using ne2 by (rule secrets_choice_mem)
      then have s_prop: "second \<in> set entries" "second \<noteq> first"
        by (simp_all add: rem1_def)
      have c2: "card (set rem2) = card (set rem1) - 1"
        unfolding rem2_def using s_in by (rule card_remove_owner)
      have p2: "0 < card (set rem1)" using ne2 by (rule card_pos_nonempty)
      show ?thesis
      proof (cases "rem2 = []")
        case True
        then have w: "select_winners rnd entries = [first, second]"
          using ne1 ne2
          by (simp add: select_winners_def rnd first_def rem1_def second_def rem2_def Let_def)
        from True c2 p2 c1 have "card (set entries) = 2" by simp
        with w f_in s_prop show ?thesis by simp
      next
        case ne3: False
        define third where "third = secrets_choice r3 rem2"
        have t_in: "third \<in> set rem2"
          unfolding third_def using ne3 by (rule secrets_choice_mem)
        then have t_prop: "third \<in> set entries" "third \<noteq> first" "third \<noteq> second"
          by (simp_all add: rem2_def rem1_def)
        have w: "select_winners rnd entries = [first, second, third]"
          using ne1 ne2 ne3
          by (simp add: select_winners_def rnd first_def rem1_def second_def rem2_def
              third_def Let_def)
        have p3: "0 < card (set rem2)" using ne3 by (rule card_pos_nonempty)
        with c2 c1 have "3 \<le> card (set entries)" by simp
        with w f_in s_prop t_prop show ?thesis by simp
      qed
    qed
  qed
qed

text \<open>
  Ten entries of four owners with 3, 3, 2 and 2 chances: three distinct winners.
\<close>

lemma four_owner_pool:
  "expand_entries [(1, 3), (2, 3), (3, 2), (4, 2)] = [1, 1, 1, 2, 2, 2, 3, 3, 4, 4]"
  by (simp add: expand_entries_def numeral_3_eq_3 numeral_2_eq_2)

theorem select_winners_four_owners_witness:
  "distinct (select_winners (7, 4, 2) (expand_entries [(1, 3), (2, 3), (3, 2), (4, 2)])) \<and>
   length (select_winners (7, 4, 2) (expand_entries [(1, 3), (2, 3), (3, 2), (4, 2)])) = 3"
  using select_winners_distinct_owners [of "(7, 4, 2)" "expand_entries [(1, 3), (2, 3), (3, 2), (4, 2)]"]
  unfolding four_owner_pool by simp

section \<open>The remaining pot\<close>






section \<open>Restarts and overdue windows\<close>

text \<open>
  User 1 holds a ticket of the hourly window 11:00 and the process is started again at
  11:15. The jobs then scheduled are for 12:00 (hourly) and 20:00 (daily and weekly):
  none is for 11:00. The hourly job, run at 12:00, finds no ticket, submits nothing,
  leaves the ticket of 11:00 undrawn and schedules 13:00.
\<close>

theorem restart_skips_overdue_window:
  "at_day_time 6 11 0 < at_day_time 6 11 15 \<and>
   select_undrawn (db restart_state) ''hourly'' (at_day_time 6 11 0) = [(1, 1)] \<and>
   map job_draw_datetime (job_queue restart_state)
     = [at_day_time 6 12 0, at_day_time 6 20 0, at_day_time 6 20 0] \<and>
   snd draw_after_restart = None \<and>
   sent (fst draw_after_restart) = sent restart_state \<and>
   select_undrawn (db (fst draw_after_restart)) ''hourly'' (at_day_time 6 11 0) = [(1, 1)] \<and>
   map job_draw_datetime (job_queue (fst draw_after_restart))
     = [at_day_time 6 12 0, at_day_time 6 20 0, at_day_time 6 20 0, at_day_time 6 13 0]"
  by code_simp

lemma draw_schedules_next:
  "job_queue (fst (draw_job_callback gw cfg users rnd now1 now2 data s))
     = schedule_draw (job_lottery_type data) now1 now2 (job_queue s)"
  unfolding draw_job_callback_def Let_def
  by (auto split: option.splits prod.splits)

lemma next_draw_after_now:
  assumes "lt = ''hourly'' \<or> lt = ''daily'' \<or> lt = ''weekly''"
  shows "now < get_next_draw_datetime lt now"
  using assms next_hourly_ok [of now] next_daily_ok [of now] next_weekly_ok [of now]
  by blast

text \<open>
  Claim C5, as the source has it. For each of the three cadences,
  \<^verbatim>\<open>schedule_draw\<close> hands the job queue exactly one job, for the next draw time
  computed from the clock, which is strictly after the clock reading; its delay is
  the time left until then, or zero when that instant has passed by the time the
  delay is computed. So a window whose instant is not after the clock reading is
  never the window of the job. Every run of a draw ends with one such call, and
  \<^verbatim>\<open>main\<close> starts with one per cadence on an empty queue.
\<close>

theorem schedule_draw_next_window_only:
  assumes "lt = ''hourly'' \<or> lt = ''daily'' \<or> lt = ''weekly''"
  shows "schedule_draw lt now1 now2 q =
           q @ [\<lparr>job_name = lt,
                 job_delay = max 0 (total_seconds (get_next_draw_datetime lt now1 - now2)),
                 job_lottery_type = lt,
                 job_draw_datetime = get_next_draw_datetime lt now1\<rparr>] \<and>
         now1 < get_next_draw_datetime lt now1 \<and>
         (w \<le> now1 \<longrightarrow> get_next_draw_datetime lt now1 \<noteq> w) \<and>
         job_queue (fst (draw_job_callback gw cfg users rnd now1 now2 data s))
           = schedule_draw (job_lottery_type data) now1 now2 (job_queue s) \<and>
         map job_draw_datetime (main_schedule now1)
           = [get_next_draw_datetime ''hourly'' now1, get_next_draw_datetime ''daily'' now1,
              get_next_draw_datetime ''weekly'' now1]"
proof -
  have job: "schedule_draw lt now1 now2 q =
           q @ [\<lparr>job_name = lt,
                 job_delay = max 0 (total_seconds (get_next_draw_datetime lt now1 - now2)),
                 job_lottery_type = lt,
                 job_draw_datetime = get_next_draw_datetime lt now1\<rparr>]"
    by (simp add: schedule_draw_def Let_def max_def)
  have after: "now1 < get_next_draw_datetime lt now1"
    using assms by (rule next_draw_after_now)
  then have overdue: "w \<le> now1 \<longrightarrow> get_next_draw_datetime lt now1 \<noteq> w"
    by auto
  have main: "map job_draw_datetime (main_schedule now1)
           = [get_next_draw_datetime ''hourly'' now1, get_next_draw_datetime ''daily'' now1,
              get_next_draw_datetime ''weekly'' now1]"
    by (simp add: main_schedule_def schedule_draw_def Let_def)
  from job after overdue draw_schedules_next main show ?thesis by blast
qed

text \<open>
  At 11:15 the window 11:00 is overdue and the hourly job is for 12:00; computed at
  11:15 and scheduled at 12:30, the job for 12:00 gets the delay zero.
\<close>

lemma restart_hourly_value:
  "get_next_draw_datetime ''hourly'' (at_day_time 6 11 15) = at_day_time 6 12 0"
  by code_simp

theorem schedule_draw_restart_witness:
  "at_day_time 6 11 0 \<le> at_day_time 6 11 15 \<and>
   at_day_time 6 11 15 < at_day_time 6 12 0 \<and>
   at_day_time 6 12 0 \<noteq> at_day_time 6 11 0 \<and>
   schedule_draw ''hourly'' (at_day_time 6 11 15) (at_day_time 6 12 30) []
     = [\<lparr>job_name = ''hourly'', job_delay = 0, job_lottery_type = ''hourly'',
         job_draw_datetime = at_day_time 6 12 0\<rparr>]"
proof -
  have w: "at_day_time 6 11 0 \<le> at_day_time 6 11 15"
    by code_simp
  have d: "max 0 (total_seconds (at_day_time 6 12 0 - at_day_time 6 12 30)) = 0"
    by code_simp
  from w show ?thesis
    using schedule_draw_next_window_only
            [of "''hourly''" "at_day_time 6 11 15" "at_day_time 6 12 30" "[]"
                "at_day_time 6 11 0"]
    unfolding restart_hourly_value d by simp
qed

section \<open>The next draw time\<close>

text \<open>
  Claim C6. For each of the three cadences and every clock reading \<open>now\<close>, the
  computed next draw time is strictly after \<open>now\<close> and follows the cadence's rule:
  the hourly one is the top of the hour after the hour of \<open>now\<close>; the daily one is
  at 20:00:00 UTC and at most a day away; the weekly one is on a Sunday at 20:00:00 UTC
  and at most seven days away. The statement has no condition on \<open>now\<close>, so it
  covers the instants at which \<open>now\<close> is itself a draw instant.
\<close>

theorem next_draw_strictly_after_now_on_rule:
  "(now < get_next_draw_datetime ''hourly'' now \<and>
    get_next_draw_datetime ''hourly'' now = replace_top_of_hour now + HOUR_US \<and>
    get_next_draw_datetime ''hourly'' now mod HOUR_US = 0) \<and>
   (now < get_next_draw_datetime ''daily'' now \<and>
    get_next_draw_datetime ''daily'' now \<le> now + DAY_US \<and>
    time_of_day (get_next_draw_datetime ''daily'' now) = 20 * HOUR_US) \<and>
   (now < get_next_draw_datetime ''weekly'' now \<and>
    get_next_draw_datetime ''weekly'' now \<le> now + 7 * DAY_US \<and>
    time_of_day (get_next_draw_datetime ''weekly'' now) = 20 * HOUR_US \<and>
    weekday (get_next_draw_datetime ''weekly'' now) = 6)"
proof -
  have "get_next_draw_datetime ''hourly'' now = replace_top_of_hour now + HOUR_US"
    by (simp add: next_hourly replace_top_of_hour_def)
  then show ?thesis
    using next_hourly_ok [of now] next_daily_ok [of now] next_weekly_ok [of now]
    by simp
qed

text \<open>
  The boundary: day 6 of the calendar is a Sunday, and at 20:00:00 sharp on it the
  three next draws are 21:00 the same day, 20:00 on day 7 and 20:00 on day 13.
\<close>

lemma at_boundary_values:
  "get_next_draw_datetime ''hourly'' (at_day_time 6 20 0) = at_day_time 6 21 0"
  "get_next_draw_datetime ''daily'' (at_day_time 6 20 0) = at_day_time 7 20 0"
  "get_next_draw_datetime ''weekly'' (at_day_time 6 20 0) = at_day_time 13 20 0"
  by (simp_all add: get_next_draw_datetime_def at_day_time_def replace_2000_def
      replace_top_of_hour_def weekday_def DAY_US_def HOUR_US_def MINUTE_US_def)

theorem next_draw_at_draw_instant_witness:
  "at_day_time 6 20 0 < at_day_time 6 21 0 \<and>
   at_day_time 6 20 0 < at_day_time 7 20 0 \<and>
   at_day_time 6 20 0 < at_day_time 13 20 0 \<and>
   time_of_day (at_day_time 7 20 0) = 20 * HOUR_US \<and>
   time_of_day (at_day_time 13 20 0) = 20 * HOUR_US \<and>
   weekday (at_day_time 13 20 0) = 6"
  using next_draw_strictly_after_now_on_rule [of "at_day_time 6 20 0"]
  unfolding at_boundary_values by simp

section \<open>Recording a purchase\<close>










section \<open>The operator cut and the tier prizes\<close>








section \<open>Transfers capped to the available balance\<close>





section \<open>The transfer never raises\<close>




end
